theory Spec2Isabelle
  imports Complex_Main
begin

section \<open>JavaScript values\<close>

text \<open>
  \<^verbatim>\<open>ChromecastSessionManager.js\<close> relies on the dynamic operators of JavaScript:
  \<^verbatim>\<open>a || b\<close> yields \<open>a\<close> when \<open>a\<close> is truthy and \<open>b\<close> otherwise, \<^verbatim>\<open>a && b\<close> yields \<open>a\<close>
  when \<open>a\<close> is falsy and \<open>b\<close> otherwise, \<^verbatim>\<open>!a\<close> is a boolean. The values that flow through
  these operators are modelled as they are: \<open>undefined\<close>, \<open>null\<close>, booleans, numbers
  (finite ones as reals, with \<open>NaN\<close> apart; only their truthiness and identity are used, no
  arithmetic), strings, and objects known by reference.
\<close>

datatype jsval =
    JUndefined
  | JNull
  | JBool bool
  | JNum real
  | JNaN
  | JStr string
  | JObj nat

fun truthy :: "jsval \<Rightarrow> bool" where
  "truthy JUndefined = False"
| "truthy JNull = False"
| "truthy (JBool b) = b"
| "truthy (JNum x) = (x \<noteq> 0)"
| "truthy JNaN = False"
| "truthy (JStr s) = (s \<noteq> [])"
| "truthy (JObj r) = True"

definition js_or :: "jsval \<Rightarrow> jsval \<Rightarrow> jsval" where
  "js_or a b = (if truthy a then a else b)"

definition js_and :: "jsval \<Rightarrow> jsval \<Rightarrow> jsval" where
  "js_and a b = (if truthy a then b else a)"

definition js_not :: "jsval \<Rightarrow> jsval" where
  "js_not a = JBool (\<not> truthy a)"

text \<open>\<^verbatim>\<open>a === b\<close>: equal values of the same type, \<open>NaN\<close> equal to nothing, objects by reference.\<close>

definition strict_eq :: "jsval \<Rightarrow> jsval \<Rightarrow> bool" where
  "strict_eq a b = (a = b \<and> a \<noteq> JNaN)"

section \<open>The Cast SDK and the Video.js player, as the manager sees them\<close>

text \<open>
  The enumerations of \<^verbatim>\<open>cast.framework\<close> belong to the Cast SDK. Their members are
  distinct non-empty strings, hence all truthy and compared by value with \<^verbatim>\<open>===\<close>.
\<close>

datatype CastState = NO_DEVICES_AVAILABLE | NOT_CONNECTED | CONNECTING | CONNECTED

datatype SessionState =
    NO_SESSION
  | SESSION_STARTING
  | SESSION_STARTED
  | SESSION_START_FAILED
  | SESSION_ENDING
  | SESSION_ENDED
  | SESSION_RESUMED

datatype CastContextEventType = CAST_STATE_CHANGED | SESSION_STATE_CHANGED

text \<open>
  What \<^verbatim>\<open>castSession.getMediaSession()\<close> returns when it is not \<open>null\<close>: the three
  properties the manager reads.
\<close>

record mediaStatus =
  media :: jsval
  ms_currentTime :: jsval
  playerState :: jsval

record castSession =
  getMediaSession :: "mediaStatus option"

text \<open>
  The environment is everything the manager reads and does not own: the three namespaces of
  \<^verbatim>\<open>window\<close>, the answers of \<^verbatim>\<open>cast.framework.CastContext.getInstance()\<close>
  (\<open>getCurrentSession\<close> is \<open>None\<close> for \<open>null\<close>), and the getters of the Video.js player.
  \<open>window_chrome_cast\<close> is what \<^verbatim>\<open>window.chrome.cast\<close> evaluates to when
  \<^verbatim>\<open>window.chrome\<close> is truthy. The global \<^verbatim>\<open>cast\<close> is \<^verbatim>\<open>window.cast\<close>: where it is
  truthy the Cast SDK is loaded and its context configured, and the four answers of the
  context are the ones it gives; where it is falsy there is no \<^verbatim>\<open>cast.framework\<close> to
  read, and the answers of the context are never consulted.
\<close>

record env =
  window_chrome :: jsval
  window_chrome_cast :: jsval
  window_cast :: jsval
  getCastState :: CastState
  getSessionState :: SessionState
  getCurrentSession :: "castSession option"
  currentSource :: jsval
  currentSources :: jsval
  currentTime :: jsval
  paused :: jsval

text \<open>
  The function handed to \<^verbatim>\<open>player.ready\<close> by \<^verbatim>\<open>_reloadTech\<close> is a closure over the two
  local variables \<^verbatim>\<open>wasPlaying\<close> and \<^verbatim>\<open>currentTime\<close>; the listeners handed to the cast
  context are the two functions bound to an instance, known by the instance's number.
\<close>

datatype readyCallback = ReloadReady (wasPlaying: jsval) (capturedTime: jsval)

datatype listener = SessionListener nat | CastListener nat

text \<open>The calls the manager makes on the player, in the order it makes them.\<close>

datatype playerCall =
    Trigger string
  | On string nat
  | Src jsval
  | Ready readyCallback
  | Play
  | Pause
  | SetCurrentTime jsval

datatype error = TypeError | ReferenceError

text \<open>
  The state the manager writes: its three static fields, the listeners registered on the
  cast context, the calls made on the player, the promises of \<^verbatim>\<open>requestSession()\<close> not
  yet settled, and the rejections no handler took (the console's unhandled-rejection
  channel). \<open>nextRef\<close> numbers instances and objects created with \<^verbatim>\<open>new\<close>.
\<close>

record world =
  hasConnected :: bool
  remotePlayer :: "nat option"
  remotePlayerController :: "(nat \<times> nat) option"
  listeners :: "(CastContextEventType \<times> listener) list"
  playerCalls :: "playerCall list"
  pendingRequests :: nat
  unhandledRejections :: "error list"
  nextRef :: nat

text \<open>The static initialisers: \<^verbatim>\<open>remotePlayer\<close>, \<^verbatim>\<open>remotePlayerController\<close>, \<^verbatim>\<open>hasConnected = false\<close>.\<close>

definition initial :: world where
  "initial = \<lparr> hasConnected = False, remotePlayer = None, remotePlayerController = None,
     listeners = [], playerCalls = [], pendingRequests = 0, unhandledRejections = [],
     nextRef = 0 \<rparr>"

definition call :: "playerCall \<Rightarrow> world \<Rightarrow> world" where
  "call c w = w\<lparr> playerCalls := playerCalls w @ [c] \<rparr>"

definition trigger :: "string \<Rightarrow> world \<Rightarrow> world" where
  "trigger name w = call (Trigger name) w"

text \<open>The calls made on the player since an earlier state.\<close>

definition newCalls :: "world \<Rightarrow> world \<Rightarrow> playerCall list" where
  "newCalls w w' = drop (length (playerCalls w)) (playerCalls w')"

section \<open>ChromecastSessionManager\<close>

text \<open>
  Every method that uses the SDK reads the global \<^verbatim>\<open>cast.framework\<close> before it has any
  effect: the constructor in \<^verbatim>\<open>_addCastContextEventListeners\<close>, the session listener in its
  first comparison, the cast listener in the comparisons of \<^verbatim>\<open>hasAvailableDevices\<close>, the
  dispose hook in its \<^verbatim>\<open>var\<close> initialisers, and \<^verbatim>\<open>openCastMenu\<close> in \<^verbatim>\<open>getCastContext()\<close>
  once the player has a source. The definitions of this section are the methods from that
  read on, in a page whose \<^verbatim>\<open>cast.framework\<close> answers; the read itself, which throws where
  the global is missing, is placed in front of them by \<open>exec\<close> below.
\<close>

subsection \<open>Listeners on the cast context\<close>

definition addCastContextEventListeners :: "nat \<Rightarrow> world \<Rightarrow> world" where
  "addCastContextEventListeners this w =
     w\<lparr> listeners := listeners w @
          [(SESSION_STATE_CHANGED, SessionListener this), (CAST_STATE_CHANGED, CastListener this)] \<rparr>"

definition removeCastContextEventListeners :: "nat \<Rightarrow> world \<Rightarrow> world" where
  "removeCastContextEventListeners this w =
     w\<lparr> listeners := removeAll (CAST_STATE_CHANGED, CastListener this)
          (removeAll (SESSION_STATE_CHANGED, SessionListener this) (listeners w)) \<rparr>"

subsection \<open>Reloading the tech\<close>

text \<open>
  \<^verbatim>\<open>_reloadTech(sessionCurrentTime, sessionPlaying)\<close>; an argument left out is \<open>undefined\<close>.
\<close>

definition reloadTech :: "env \<Rightarrow> jsval \<Rightarrow> jsval \<Rightarrow> world \<Rightarrow> world" where
  "reloadTech e sessionCurrentTime sessionPlaying w =
     (let currentTime' = js_or sessionCurrentTime (currentTime e);
          wasPlaying' = js_or sessionPlaying (js_not (paused e));
          sources = currentSources e
      in call (Ready (ReloadReady wasPlaying' currentTime')) (call (Src sources) w))"

text \<open>The body of the function given to \<^verbatim>\<open>player.ready\<close>, run by the player once it is ready.\<close>

fun runReady :: "readyCallback \<Rightarrow> world \<Rightarrow> world" where
  "runReady (ReloadReady wasPlaying' currentTime') w =
     call (SetCurrentTime (js_or currentTime' (JNum 0)))
       (if truthy wasPlaying' then call Play w else call Pause w)"

definition reloadTechWithSources :: "env \<Rightarrow> mediaStatus \<Rightarrow> world \<Rightarrow> world" where
  "reloadTechWithSources e ms w =
     (let currentTime' = ms_currentTime ms;
          isPlaying = JBool (strict_eq (playerState ms) (JStr ''PLAYING''))
      in reloadTech e currentTime' isPlaying w)"

subsection \<open>Session-state changes\<close>

text \<open>
  \<^verbatim>\<open>_onSessionResumed\<close>: \<^verbatim>\<open>castSession.getMediaSession()\<close> is evaluated first, among the
  \<^verbatim>\<open>var\<close> initialisers, and reading a property of \<open>null\<close> throws a \<open>TypeError\<close>.
\<close>

definition onSessionResumed :: "env \<Rightarrow> world \<Rightarrow> error option \<times> world" where
  "onSessionResumed e w =
     (case getCurrentSession e of
        None \<Rightarrow> (Some TypeError, w)
      | Some castSession \<Rightarrow>
          (let mediaStatus = getMediaSession castSession;
               w1 = w\<lparr> hasConnected := True \<rparr>;
               w2 = trigger ''chromecastConnected'' w1
           in (None,
               (case mediaStatus of
                  None \<Rightarrow> reloadTech e JUndefined JUndefined w2
                | Some ms \<Rightarrow>
                    if truthy (media ms) then reloadTechWithSources e ms w2
                    else reloadTech e JUndefined JUndefined w2))))"

definition onSessionStateChange :: "env \<Rightarrow> SessionState \<Rightarrow> world \<Rightarrow> error option \<times> world" where
  "onSessionStateChange e sessionState w =
     (if sessionState = SESSION_ENDED
      then (None, reloadTech e JUndefined JUndefined (trigger ''chromecastDisconnected'' w))
      else if sessionState = SESSION_RESUMED then onSessionResumed e w
      else (None, w))"

subsection \<open>Cast-state changes\<close>

text \<open>
  \<^verbatim>\<open>hasAvailableDevices(castState)\<close>: the argument is a member of \<^verbatim>\<open>CastState\<close>, which is
  truthy, or it is left out (\<open>None\<close>), and then \<^verbatim>\<open>castState || getCastState()\<close> is the
  context's state.
\<close>

definition hasAvailableDevices :: "env \<Rightarrow> CastState option \<Rightarrow> bool" where
  "hasAvailableDevices e castState =
     (let castState' = (case castState of Some s \<Rightarrow> s | None \<Rightarrow> getCastState e)
      in castState' = NOT_CONNECTED \<or> castState' = CONNECTING \<or> castState' = CONNECTED)"

definition notifyPlayerOfDevicesAvailabilityChange :: "env \<Rightarrow> CastState option \<Rightarrow> world \<Rightarrow> world" where
  "notifyPlayerOfDevicesAvailabilityChange e castState w =
     (if hasAvailableDevices e castState then trigger ''chromecastDevicesAvailable'' w
      else trigger ''chromecastDevicesUnavailable'' w)"

definition onCastStateChange :: "env \<Rightarrow> CastState \<Rightarrow> world \<Rightarrow> world" where
  "onCastStateChange e castState w = notifyPlayerOfDevicesAvailabilityChange e (Some castState) w"

subsection \<open>Opening the cast menu\<close>

text \<open>
  \<^verbatim>\<open>requestSession()\<close> returns a promise that the SDK settles later; \<^verbatim>\<open>.then(f, g)\<close> runs
  \<open>f\<close> when it is fulfilled and \<open>g\<close> with the reason when it is rejected. The promise that
  \<^verbatim>\<open>.then\<close> itself returns is dropped by \<^verbatim>\<open>openCastMenu\<close>, so it is rejected without a
  handler exactly when the handler that ran threw; what it threw then reaches the
  unhandled-rejection channel.
\<close>

datatype outcome = Fulfilled | Rejected jsval

definition promise_then ::
  "outcome \<Rightarrow> (world \<Rightarrow> error option \<times> world) \<Rightarrow> (jsval \<Rightarrow> world \<Rightarrow> error option \<times> world) \<Rightarrow>
   world \<Rightarrow> world" where
  "promise_then settled onFulfilled onRejected w =
     (case (case settled of Fulfilled \<Rightarrow> onFulfilled w | Rejected reason \<Rightarrow> onRejected reason w) of
        (None, w') \<Rightarrow> w'
      | (Some thrown, w') \<Rightarrow> w'\<lparr> unhandledRejections := unhandledRejections w' @ [thrown] \<rparr>)"

definition onSessionSuccess :: "env \<Rightarrow> world \<Rightarrow> error option \<times> world" where
  "onSessionSuccess e w =
     (let w1 = w\<lparr> hasConnected := True \<rparr>;
          w2 = trigger ''chromecastConnected'' w1
      in (None, reloadTech e JUndefined JUndefined w2))"

definition noop :: "jsval \<Rightarrow> world \<Rightarrow> error option \<times> world" where
  "noop reason w = (None, w)"

definition openCastMenu :: "env \<Rightarrow> world \<Rightarrow> error option \<times> world" where
  "openCastMenu e w =
     (if \<not> truthy (currentSource e) then (None, w)
      else (None, w\<lparr> pendingRequests := Suc (pendingRequests w) \<rparr>))"

text \<open>
  The SDK settles one pending request; the handlers of \<^verbatim>\<open>openCastMenu\<close> run in the
  environment of that moment. With no request pending there is no promise to settle and
  nothing happens.
\<close>

definition sessionRequestSettled :: "env \<Rightarrow> outcome \<Rightarrow> world \<Rightarrow> world" where
  "sessionRequestSettled e settled w =
     (if pendingRequests w = 0 then w
      else promise_then settled (onSessionSuccess e) noop
             (w\<lparr> pendingRequests := pendingRequests w - 1 \<rparr>))"

subsection \<open>Construction\<close>

definition new_ChromecastSessionManager :: "env \<Rightarrow> world \<Rightarrow> error option \<times> world" where
  "new_ChromecastSessionManager e w =
     (let this = nextRef w;
          w0 = w\<lparr> nextRef := Suc this \<rparr>;
          w1 = addCastContextEventListeners this w0;
          w2 = call (On ''dispose'' this) w1;
          w3 = notifyPlayerOfDevicesAvailabilityChange e (Some (getCastState e)) w2
      in (case onSessionStateChange e (getSessionState e) w3 of
            (Some thrown, w4) \<Rightarrow> (Some thrown, w4)
          | (None, w4) \<Rightarrow>
              (let (p, w5) = (case remotePlayer w4 of
                                Some p \<Rightarrow> (p, w4)
                              | None \<Rightarrow> (nextRef w4,
                                  w4\<lparr> remotePlayer := Some (nextRef w4), nextRef := Suc (nextRef w4) \<rparr>));
                   w6 = (case remotePlayerController w5 of
                           Some c \<Rightarrow> w5
                         | None \<Rightarrow> w5\<lparr> remotePlayerController := Some (nextRef w5, p),
                                        nextRef := Suc (nextRef w5) \<rparr>)
               in (None, w6))))"

subsection \<open>Static queries\<close>

definition isChromecastAPIAvailable :: "env \<Rightarrow> jsval" where
  "isChromecastAPIAvailable e = js_and (js_and (window_chrome e) (window_chrome_cast e)) (window_cast e)"

definition isChromecastConnected :: "env \<Rightarrow> world \<Rightarrow> jsval" where
  "isChromecastConnected e w =
     js_and (js_and (isChromecastAPIAvailable e) (JBool (getCastState e = CONNECTED)))
       (JBool (hasConnected w))"

definition getRemotePlayer :: "world \<Rightarrow> nat option" where
  "getRemotePlayer w = remotePlayer w"

definition getRemotePlayerController :: "world \<Rightarrow> (nat \<times> nat) option" where
  "getRemotePlayerController w = remotePlayerController w"

section \<open>The operations, as the host and the SDK invoke them\<close>

text \<open>
  The steps that change the state: construction, the two listeners, \<^verbatim>\<open>openCastMenu\<close>, the
  settlement of a session request, a ready callback run by the player, and the dispose hook
  of an instance. The queries (\<open>hasAvailableDevices\<close>, \<open>getRemotePlayer\<close>,
  \<open>getRemotePlayerController\<close>, \<open>isChromecastAPIAvailable\<close>, \<open>isChromecastConnected\<close>) only
  read and are the functions above.
\<close>

datatype operation =
    New
  | SessionStateChanged SessionState
  | CastStateChanged CastState
  | OpenCastMenu
  | SessionRequestSettled outcome
  | PlayerReady readyCallback
  | PlayerDisposed nat

text \<open>Each operation from its read of \<^verbatim>\<open>cast.framework\<close> on: the method of the section above.\<close>

fun perform :: "env \<Rightarrow> operation \<Rightarrow> world \<Rightarrow> error option \<times> world" where
  "perform e New w = new_ChromecastSessionManager e w"
| "perform e (SessionStateChanged s) w = onSessionStateChange e s w"
| "perform e (CastStateChanged s) w = (None, onCastStateChange e s w)"
| "perform e OpenCastMenu w = openCastMenu e w"
| "perform e (SessionRequestSettled settled) w = (None, sessionRequestSettled e settled w)"
| "perform e (PlayerReady cb) w = (None, runReady cb w)"
| "perform e (PlayerDisposed this) w = (None, removeCastContextEventListeners this w)"

text \<open>
  The operations that read the global \<^verbatim>\<open>cast.framework\<close>, each before any of its effects.
  \<^verbatim>\<open>openCastMenu\<close> reads it only past the test of the player's source; the handlers of a
  settled session request and the ready callback never read it.
\<close>

fun readsCast :: "env \<Rightarrow> operation \<Rightarrow> bool" where
  "readsCast e New = True"
| "readsCast e (SessionStateChanged s) = True"
| "readsCast e (CastStateChanged s) = True"
| "readsCast e OpenCastMenu = truthy (currentSource e)"
| "readsCast e (SessionRequestSettled settled) = False"
| "readsCast e (PlayerReady cb) = False"
| "readsCast e (PlayerDisposed this) = True"

text \<open>
  What reading \<^verbatim>\<open>cast.framework\<close> throws where \<^verbatim>\<open>window.cast\<close> is falsy: a
  \<open>ReferenceError\<close> when the global was never declared (\<open>undefined\<close>), a \<open>TypeError\<close> on
  the next property read otherwise.
\<close>

definition castLookupError :: "env \<Rightarrow> error" where
  "castLookupError e = (if window_cast e = JUndefined then ReferenceError else TypeError)"

text \<open>
  An operation as the page runs it: the read of \<^verbatim>\<open>cast.framework\<close> throws where the global
  is missing and the state is left as it was, since no effect precedes the read; otherwise
  the method goes on.
\<close>

definition exec :: "env \<Rightarrow> operation \<Rightarrow> world \<Rightarrow> error option \<times> world" where
  "exec e op w =
     (if readsCast e op \<and> \<not> truthy (window_cast e) then (Some (castLookupError e), w)
      else perform e op w)"

text \<open>
  A run: each operation happens in the environment of its moment; an exception ends the
  operation that threw and the next one starts from the state it left.
\<close>

fun run :: "(env \<times> operation) list \<Rightarrow> world \<Rightarrow> world" where
  "run [] w = w"
| "run ((e, op) # rest) w = run rest (snd (exec e op w))"

section \<open>Concrete environments\<close>

text \<open>
  A page where the SDK is loaded and a session has been resumed with a media item playing at
  42 seconds, while the local player sits paused at 30 seconds.
\<close>

definition playingAt42 :: mediaStatus where
  "playingAt42 = \<lparr> media = JObj 7, ms_currentTime = JNum 42, playerState = JStr ''PLAYING'' \<rparr>"

definition resumedEnv :: env where
  "resumedEnv = \<lparr> window_chrome = JObj 1, window_chrome_cast = JObj 2, window_cast = JObj 3,
     getCastState = CONNECTED, getSessionState = SESSION_RESUMED,
     getCurrentSession = Some \<lparr> getMediaSession = Some playingAt42 \<rparr>,
     currentSource = JObj 5, currentSources = JObj 6, currentTime = JNum 30,
     paused = JBool True \<rparr>"

text \<open>
  The same page when the resumed session is paused at its very start and the local player is
  playing at 30 seconds.
\<close>

definition pausedAt0 :: mediaStatus where
  "pausedAt0 = \<lparr> media = JObj 7, ms_currentTime = JNum 0, playerState = JStr ''PAUSED'' \<rparr>"

definition pausedEnv :: env where
  "pausedEnv = resumedEnv\<lparr> getCurrentSession := Some \<lparr> getMediaSession = Some pausedAt0 \<rparr>,
     paused := JBool False \<rparr>"

text \<open>The session state says resumed while the context has no current session.\<close>

definition noSessionEnv :: env where
  "noSessionEnv = resumedEnv\<lparr> getCurrentSession := None \<rparr>"

text \<open>A browser without the Cast API, and a player without a source.\<close>

definition bareEnv :: env where
  "bareEnv = \<lparr> window_chrome = JUndefined, window_chrome_cast = JUndefined,
     window_cast = JUndefined, getCastState = NO_DEVICES_AVAILABLE, getSessionState = NO_SESSION,
     getCurrentSession = None, currentSource = JUndefined, currentSources = JUndefined,
     currentTime = JNum 0, paused = JBool True \<rparr>"

definition availabilityEvents :: "playerCall list \<Rightarrow> playerCall list" where
  "availabilityEvents cs =
     filter (\<lambda>c. c = Trigger ''chromecastDevicesAvailable'' \<or> c = Trigger ''chromecastDevicesUnavailable'') cs"

text \<open>
  The operations that run \<^verbatim>\<open>_onSessionResumed\<close>: the session listener on a
  \<open>SESSION_RESUMED\<close> event, and the constructor when the context's session state is
  \<open>SESSION_RESUMED\<close>.
\<close>

definition handlesSessionResumed :: "env \<Rightarrow> operation \<Rightarrow> bool" where
  "handlesSessionResumed e op =
     (op = SessionStateChanged SESSION_RESUMED \<or> (op = New \<and> getSessionState e = SESSION_RESUMED))"

text \<open>A state in which a session has been resumed, and what may follow it.\<close>

definition connectedWorld :: world where
  "connectedWorld = snd (exec resumedEnv (SessionStateChanged SESSION_RESUMED) initial)"

definition laterOperations :: "(env \<times> operation) list" where
  "laterOperations =
     [(bareEnv, New), (bareEnv, SessionStateChanged SESSION_ENDED),
      (bareEnv, CastStateChanged NO_DEVICES_AVAILABLE), (bareEnv, PlayerDisposed 0),
      (resumedEnv, OpenCastMenu), (bareEnv, SessionRequestSettled (Rejected (JStr ''cancel'')))]"


section \<open>Properties\<close>

lemma playerCalls_call [simp]: "playerCalls (call c w) = playerCalls w @ [c]"
  by (simp add: call_def)

lemma hasConnected_call [simp]: "hasConnected (call c w) = hasConnected w"
  by (simp add: call_def)

lemma newCalls_append: "playerCalls w' = playerCalls w @ cs \<Longrightarrow> newCalls w w' = cs"
  by (simp add: newCalls_def)

lemma js_or_undefined [simp]: "js_or JUndefined b = b"
  by (simp add: js_or_def)

lemma playerCalls_reloadTech:
  "playerCalls (reloadTech e t p w) =
     playerCalls w @ [Src (currentSources e),
       Ready (ReloadReady (js_or p (js_not (paused e))) (js_or t (currentTime e)))]"
  by (simp add: reloadTech_def)

lemma hasConnected_reloadTech [simp]: "hasConnected (reloadTech e t p w) = hasConnected w"
  by (simp add: reloadTech_def)

lemma playerCalls_trigger [simp]: "playerCalls (trigger n w) = playerCalls w @ [Trigger n]"
  by (simp add: trigger_def)

lemma hasConnected_trigger [simp]: "hasConnected (trigger n w) = hasConnected w"
  by (simp add: trigger_def)

lemma strict_eq_str [simp]: "strict_eq a (JStr s) = (a = JStr s)"
  by (auto simp: strict_eq_def)

lemma onSessionResumed_Some:
  "getCurrentSession e = Some s \<Longrightarrow>
   onSessionResumed e w =
     (None,
      (case getMediaSession s of
         None \<Rightarrow> reloadTech e JUndefined JUndefined
                   (trigger ''chromecastConnected'' (w\<lparr> hasConnected := True \<rparr>))
       | Some ms \<Rightarrow>
           if truthy (media ms)
           then reloadTech e (ms_currentTime ms) (JBool (playerState ms = JStr ''PLAYING''))
                  (trigger ''chromecastConnected'' (w\<lparr> hasConnected := True \<rparr>))
           else reloadTech e JUndefined JUndefined
                  (trigger ''chromecastConnected'' (w\<lparr> hasConnected := True \<rparr>))))"
  by (simp add: onSessionResumed_def reloadTechWithSources_def split: option.splits)

lemma newCalls_onSessionResumed:
  "newCalls w (snd (onSessionResumed e w)) =
     (case getCurrentSession e of
        None \<Rightarrow> []
      | Some s \<Rightarrow>
         [Trigger ''chromecastConnected'', Src (currentSources e),
          Ready (case getMediaSession s of
                   None \<Rightarrow> ReloadReady (js_not (paused e)) (currentTime e)
                 | Some ms \<Rightarrow>
                     if truthy (media ms)
                     then ReloadReady (js_or (JBool (playerState ms = JStr ''PLAYING'')) (js_not (paused e)))
                            (js_or (ms_currentTime ms) (currentTime e))
                     else ReloadReady (js_not (paused e)) (currentTime e))])"
proof (cases "getCurrentSession e")
  case None
  then show ?thesis by (simp add: onSessionResumed_def newCalls_def)
next
  case (Some s)
  show ?thesis
    unfolding onSessionResumed_Some [OF Some] newCalls_def
    by (simp add: Some playerCalls_reloadTech split: option.splits)
qed

lemma playerCalls_onSessionResumed:
  "playerCalls (snd (onSessionResumed e w)) = playerCalls w @ newCalls w (snd (onSessionResumed e w))"
proof (cases "getCurrentSession e")
  case None
  then show ?thesis by (simp add: onSessionResumed_def newCalls_def)
next
  case (Some s)
  show ?thesis
    unfolding newCalls_def onSessionResumed_Some [OF Some]
    by (simp add: playerCalls_reloadTech split: option.splits)
qed

lemma fst_new:
  "fst (new_ChromecastSessionManager e w) =
     fst (onSessionStateChange e (getSessionState e)
       (notifyPlayerOfDevicesAvailabilityChange e (Some (getCastState e))
         (call (On ''dispose'' (nextRef w))
           (addCastContextEventListeners (nextRef w) (w\<lparr> nextRef := Suc (nextRef w) \<rparr>)))))"
  by (simp add: new_ChromecastSessionManager_def Let_def split: prod.splits option.splits)

lemma playerCalls_new:
  "playerCalls (snd (new_ChromecastSessionManager e w)) =
     playerCalls (snd (onSessionStateChange e (getSessionState e)
       (notifyPlayerOfDevicesAvailabilityChange e (Some (getCastState e))
         (call (On ''dispose'' (nextRef w))
           (addCastContextEventListeners (nextRef w) (w\<lparr> nextRef := Suc (nextRef w) \<rparr>))))))"
  by (simp add: new_ChromecastSessionManager_def Let_def split: prod.splits option.splits)

lemma hasConnected_new:
  "hasConnected (snd (new_ChromecastSessionManager e w)) =
     hasConnected (snd (onSessionStateChange e (getSessionState e)
       (notifyPlayerOfDevicesAvailabilityChange e (Some (getCastState e))
         (call (On ''dispose'' (nextRef w))
           (addCastContextEventListeners (nextRef w) (w\<lparr> nextRef := Suc (nextRef w) \<rparr>))))))"
  by (simp add: new_ChromecastSessionManager_def Let_def split: prod.splits option.splits)

lemma playerCalls_onSessionStateChange:
  "playerCalls (snd (onSessionStateChange e s w)) =
     playerCalls w @
       (if s = SESSION_ENDED
        then [Trigger ''chromecastDisconnected'', Src (currentSources e),
              Ready (ReloadReady (js_not (paused e)) (currentTime e))]
        else if s = SESSION_RESUMED then newCalls w (snd (onSessionResumed e w))
        else [])"
  unfolding onSessionStateChange_def
  by (simp add: playerCalls_reloadTech playerCalls_onSessionResumed [of e w])

lemma playerCalls_notify [simp]:
  "playerCalls (notifyPlayerOfDevicesAvailabilityChange e c w) =
     playerCalls w @ [Trigger (if hasAvailableDevices e c then ''chromecastDevicesAvailable''
                               else ''chromecastDevicesUnavailable'')]"
  by (simp add: notifyPlayerOfDevicesAvailabilityChange_def)

lemma playerCalls_addListeners [simp]:
  "playerCalls (addCastContextEventListeners i w) = playerCalls w"
  by (simp add: addCastContextEventListeners_def)

lemma availabilityEvents_onSessionResumed:
  "availabilityEvents (newCalls w (snd (onSessionResumed e w))) = []"
  by (simp add: newCalls_onSessionResumed availabilityEvents_def split: option.splits)

lemma newCalls_new:
  "newCalls w (snd (new_ChromecastSessionManager e w)) =
     On ''dispose'' (nextRef w)
       # Trigger (if hasAvailableDevices e (Some (getCastState e)) then ''chromecastDevicesAvailable''
                  else ''chromecastDevicesUnavailable'')
       # (if getSessionState e = SESSION_ENDED
          then [Trigger ''chromecastDisconnected'', Src (currentSources e),
                Ready (ReloadReady (js_not (paused e)) (currentTime e))]
          else if getSessionState e = SESSION_RESUMED
          then newCalls w (snd (onSessionResumed e w))
          else [])"
  unfolding newCalls_def [of w "snd (new_ChromecastSessionManager e w)"] playerCalls_new
    playerCalls_onSessionStateChange
  by (simp add: newCalls_onSessionResumed)

lemma availabilityEvents_new:
  "availabilityEvents (newCalls w (snd (new_ChromecastSessionManager e w))) =
       [Trigger (if hasAvailableDevices e (Some (getCastState e)) then ''chromecastDevicesAvailable''
                 else ''chromecastDevicesUnavailable'')]"
  unfolding newCalls_new
  using availabilityEvents_onSessionResumed [of w e]
  by (simp add: availabilityEvents_def)

lemma hasConnected_onSessionStateChange:
  "hasConnected (snd (onSessionStateChange e s w)) =
     (hasConnected w \<or> (s = SESSION_RESUMED \<and> getCurrentSession e \<noteq> None))"
proof (cases "getCurrentSession e")
  case None
  then show ?thesis by (simp add: onSessionStateChange_def onSessionResumed_def)
next
  case (Some c)
  show ?thesis
    unfolding onSessionStateChange_def onSessionResumed_Some [OF Some]
    by (simp add: Some split: option.splits)
qed

lemma fst_onSessionStateChange:
  "fst (onSessionStateChange e s w) =
     (if s = SESSION_RESUMED \<and> getCurrentSession e = None then Some TypeError else None)"
proof (cases "getCurrentSession e")
  case None
  then show ?thesis by (simp add: onSessionStateChange_def onSessionResumed_def)
next
  case (Some c)
  show ?thesis
    unfolding onSessionStateChange_def onSessionResumed_Some [OF Some]
    by (simp add: Some)
qed

lemma unhandled_call [simp]: "unhandledRejections (call c w) = unhandledRejections w"
  by (simp add: call_def)

lemma unhandled_trigger [simp]: "unhandledRejections (trigger n w) = unhandledRejections w"
  by (simp add: trigger_def)

lemma unhandled_reloadTech [simp]: "unhandledRejections (reloadTech e t p w) = unhandledRejections w"
  by (simp add: reloadTech_def)

lemma unhandled_onSessionStateChange:
  "unhandledRejections (snd (onSessionStateChange e s w)) = unhandledRejections w"
proof (cases "getCurrentSession e")
  case None
  then show ?thesis by (simp add: onSessionStateChange_def onSessionResumed_def)
next
  case (Some c)
  show ?thesis
    unfolding onSessionStateChange_def onSessionResumed_Some [OF Some]
    by (simp add: Some split: option.splits)
qed

lemma unhandled_new:
  "unhandledRejections (snd (new_ChromecastSessionManager e w)) =
     unhandledRejections (snd (onSessionStateChange e (getSessionState e)
       (notifyPlayerOfDevicesAvailabilityChange e (Some (getCastState e))
         (call (On ''dispose'' (nextRef w))
           (addCastContextEventListeners (nextRef w) (w\<lparr> nextRef := Suc (nextRef w) \<rparr>))))))"
  by (simp add: new_ChromecastSessionManager_def Let_def split: prod.splits option.splits)

lemma sessionRequestSettled_Fulfilled:
  "sessionRequestSettled e Fulfilled w =
     (if pendingRequests w = 0 then w
      else reloadTech e JUndefined JUndefined
             (trigger ''chromecastConnected''
               (w\<lparr> pendingRequests := pendingRequests w - 1, hasConnected := True \<rparr>)))"
  by (simp add: sessionRequestSettled_def promise_then_def onSessionSuccess_def)

lemma sessionRequestSettled_Rejected:
  "sessionRequestSettled e (Rejected r) w =
     (if pendingRequests w = 0 then w else w\<lparr> pendingRequests := pendingRequests w - 1 \<rparr>)"
  by (simp add: sessionRequestSettled_def promise_then_def noop_def)

lemma hasConnected_sessionRequestSettled:
  "hasConnected (sessionRequestSettled e settled w) =
     (hasConnected w \<or> (settled = Fulfilled \<and> 0 < pendingRequests w))"
  by (cases settled) (simp_all add: sessionRequestSettled_Fulfilled sessionRequestSettled_Rejected)

lemma unhandled_sessionRequestSettled:
  "unhandledRejections (sessionRequestSettled e settled w) = unhandledRejections w"
  by (cases settled) (simp_all add: sessionRequestSettled_Fulfilled sessionRequestSettled_Rejected)

lemma hasConnected_runReady [simp]: "hasConnected (runReady cb w) = hasConnected w"
  by (cases cb) simp

lemma unhandled_runReady [simp]: "unhandledRejections (runReady cb w) = unhandledRejections w"
  by (cases cb) simp

lemma hasConnected_notify [simp]:
  "hasConnected (notifyPlayerOfDevicesAvailabilityChange e c w) = hasConnected w"
  by (simp add: notifyPlayerOfDevicesAvailabilityChange_def)

lemma unhandled_notify [simp]:
  "unhandledRejections (notifyPlayerOfDevicesAvailabilityChange e c w) = unhandledRejections w"
  by (simp add: notifyPlayerOfDevicesAvailabilityChange_def)

lemma hasConnected_perform:
  "hasConnected (snd (perform e op w)) =
     (hasConnected w
      \<or> (handlesSessionResumed e op \<and> getCurrentSession e \<noteq> None)
      \<or> (op = SessionRequestSettled Fulfilled \<and> 0 < pendingRequests w))"
proof (cases op)
  case New
  then show ?thesis
    by (simp add: hasConnected_new hasConnected_onSessionStateChange handlesSessionResumed_def
          addCastContextEventListeners_def)
next
  case (SessionStateChanged s)
  then show ?thesis
    by (simp add: hasConnected_onSessionStateChange handlesSessionResumed_def)
next
  case (CastStateChanged s)
  then show ?thesis by (simp add: onCastStateChange_def handlesSessionResumed_def)
next
  case OpenCastMenu
  then show ?thesis by (simp add: openCastMenu_def handlesSessionResumed_def)
next
  case (SessionRequestSettled settled)
  then show ?thesis
    by (simp add: hasConnected_sessionRequestSettled handlesSessionResumed_def)
next
  case (PlayerReady cb)
  then show ?thesis by (simp add: handlesSessionResumed_def)
next
  case (PlayerDisposed i)
  then show ?thesis
    by (simp add: removeCastContextEventListeners_def handlesSessionResumed_def)
qed

lemma fst_perform:
  "fst (perform e op w) =
     (if handlesSessionResumed e op \<and> getCurrentSession e = None then Some TypeError else None)"
proof (cases op)
  case New
  then show ?thesis
    by (simp add: fst_new fst_onSessionStateChange handlesSessionResumed_def)
next
  case (SessionStateChanged s)
  then show ?thesis by (simp add: fst_onSessionStateChange handlesSessionResumed_def)
next
  case OpenCastMenu
  then show ?thesis by (simp add: openCastMenu_def handlesSessionResumed_def)
qed (simp_all add: handlesSessionResumed_def)

lemma unhandled_perform: "unhandledRejections (snd (perform e op w)) = unhandledRejections w"
proof (cases op)
  case New
  then show ?thesis
    by (simp add: unhandled_new unhandled_onSessionStateChange addCastContextEventListeners_def)
next
  case (SessionStateChanged s)
  then show ?thesis by (simp add: unhandled_onSessionStateChange)
next
  case (CastStateChanged s)
  then show ?thesis by (simp add: onCastStateChange_def)
next
  case OpenCastMenu
  then show ?thesis by (simp add: openCastMenu_def)
next
  case (SessionRequestSettled settled)
  then show ?thesis by (simp add: unhandled_sessionRequestSettled)
next
  case (PlayerReady cb)
  then show ?thesis by simp
next
  case (PlayerDisposed i)
  then show ?thesis by (simp add: removeCastContextEventListeners_def)
qed

lemma hasConnected_exec:
  "hasConnected (snd (exec e op w)) =
     (hasConnected w
      \<or> ((\<not> readsCast e op \<or> truthy (window_cast e))
          \<and> ((handlesSessionResumed e op \<and> getCurrentSession e \<noteq> None)
               \<or> (op = SessionRequestSettled Fulfilled \<and> 0 < pendingRequests w))))"
  by (auto simp: exec_def hasConnected_perform)

lemma fst_exec:
  "fst (exec e op w) =
     (if readsCast e op \<and> \<not> truthy (window_cast e) then Some (castLookupError e)
      else if handlesSessionResumed e op \<and> getCurrentSession e = None then Some TypeError
      else None)"
  by (simp add: exec_def fst_perform)

lemma unhandled_exec: "unhandledRejections (snd (exec e op w)) = unhandledRejections w"
  by (simp add: exec_def unhandled_perform)

lemma exec_loaded: "truthy (window_cast e) \<Longrightarrow> exec e op w = perform e op w"
  by (simp add: exec_def)

lemma hasConnected_run: "hasConnected w \<Longrightarrow> hasConnected (run ops w)"
proof (induction ops arbitrary: w)
  case Nil
  then show ?case by simp
next
  case (Cons x ops)
  obtain e op where x: "x = (e, op)" by (cases x)
  from Cons.prems have "hasConnected (snd (exec e op w))"
    by (simp add: hasConnected_exec)
  then show ?case unfolding x by (simp add: Cons.IH)
qed

lemma truthy_isChromecastAPIAvailable:
  "truthy (isChromecastAPIAvailable e) =
     (truthy (window_chrome e) \<and> truthy (window_chrome_cast e) \<and> truthy (window_cast e))"
  by (simp add: isChromecastAPIAvailable_def js_and_def)

lemma newCalls_reloadTech:
  "newCalls w (reloadTech e t p w) =
     [Src (currentSources e),
      Ready (ReloadReady (if truthy p then p else JBool (\<not> truthy (paused e)))
               (if truthy t then t else currentTime e))]"
  by (simp add: newCalls_def playerCalls_reloadTech js_or_def js_not_def)

lemma newCalls_runReady:
  "newCalls w (runReady (ReloadReady p t) w) =
     [if truthy p then Play else Pause, SetCurrentTime (if truthy t then t else JNum 0)]"
  by (simp add: newCalls_def js_or_def)

subsection \<open>Session ended\<close>

text \<open>
  C3. For every \<open>SESSION_ENDED\<close> session-state event the handler triggers
  \<open>chromecastDisconnected\<close> on the player exactly once and then reloads the tech with no
  continuity parameters: both arguments of \<open>_reloadTech\<close> are \<open>undefined\<close>, so the sources
  are re-applied and the ready callback carries the player's own time and play state. The
  handler does not throw and leaves the connection flag as it was.
\<close>

theorem session_ended_disconnects_and_reloads:
  "onSessionStateChange e SESSION_ENDED w =
     (None, reloadTech e JUndefined JUndefined (trigger ''chromecastDisconnected'' w))
   \<and> newCalls w (snd (onSessionStateChange e SESSION_ENDED w)) =
       [Trigger ''chromecastDisconnected'', Src (currentSources e),
        Ready (ReloadReady (js_not (paused e)) (currentTime e))]
   \<and> count_list (newCalls w (snd (onSessionStateChange e SESSION_ENDED w)))
         (Trigger ''chromecastDisconnected'') = 1
   \<and> hasConnected (snd (onSessionStateChange e SESSION_ENDED w)) = hasConnected w"
  by (simp add: onSessionStateChange_def playerCalls_reloadTech newCalls_def)

subsection \<open>Other session states\<close>

text \<open>
  C9. For every session-state event whose state is neither \<open>SESSION_ENDED\<close> nor
  \<open>SESSION_RESUMED\<close> the handler does nothing: it returns normally and the whole state
  (connection flag, remote-player handles, calls made on the player, listeners, pending
  requests) is the one it started from.
\<close>

theorem other_session_states_no_action:
  "s \<noteq> SESSION_ENDED \<Longrightarrow> s \<noteq> SESSION_RESUMED \<Longrightarrow> onSessionStateChange e s w = (None, w)"
  by (simp add: onSessionStateChange_def)

theorem other_session_states_no_action_witness:
  "SESSION_STARTED \<noteq> SESSION_ENDED \<and> SESSION_STARTED \<noteq> SESSION_RESUMED
   \<and> onSessionStateChange resumedEnv SESSION_STARTED initial = (None, initial)"
  using other_session_states_no_action [of SESSION_STARTED resumedEnv initial] by simp

subsection \<open>Session resumed\<close>

text \<open>
  C1, as the code has it. A \<open>SESSION_RESUMED\<close> event handled while \<open>getCurrentSession()\<close> is
  \<open>null\<close>: \<open>castSession.getMediaSession()\<close> throws before the flag is assigned and before
  \<open>chromecastConnected\<close> is triggered, so the flag stays false, nothing is called on the
  player and the tech is not reloaded.
\<close>

theorem session_resumed_without_session_connects_nothing:
  "onSessionStateChange noSessionEnv SESSION_RESUMED initial = (Some TypeError, initial)
   \<and> \<not> hasConnected (snd (onSessionStateChange noSessionEnv SESSION_RESUMED initial))
   \<and> playerCalls (snd (onSessionStateChange noSessionEnv SESSION_RESUMED initial)) = []"
proof -
  have n: "getCurrentSession noSessionEnv = None"
    by (simp add: noSessionEnv_def)
  have "onSessionStateChange noSessionEnv SESSION_RESUMED initial = (Some TypeError, initial)"
    by (simp add: onSessionStateChange_def onSessionResumed_def n)
  then show ?thesis by (simp add: initial_def)
qed

text \<open>
  C1, amended. For every \<open>SESSION_RESUMED\<close> session-state event handled while the cast
  context has a current session, the handler returns normally, sets the connection
  flag and triggers \<open>chromecastConnected\<close>; then, if the session's media status exists and its
  \<open>media\<close> is truthy, \<open>_reloadTech\<close> is called with the status's \<open>currentTime\<close> and with the
  boolean \<open>playerState === 'PLAYING'\<close>, and otherwise with no arguments. In particular, for
  \<open>currentTime = 42\<close> and \<open>playerState = 'PLAYING'\<close> the reload receives 42 and \<open>true\<close>, and the
  ready callback it registers carries exactly these two values.
\<close>

theorem session_resumed_connects_and_reloads:
  assumes "getCurrentSession e = Some s"
  shows "onSessionStateChange e SESSION_RESUMED w =
     (None,
      (case getMediaSession s of
         None \<Rightarrow> reloadTech e JUndefined JUndefined
                   (trigger ''chromecastConnected'' (w\<lparr> hasConnected := True \<rparr>))
       | Some ms \<Rightarrow>
           if truthy (media ms)
           then reloadTech e (ms_currentTime ms) (JBool (playerState ms = JStr ''PLAYING''))
                  (trigger ''chromecastConnected'' (w\<lparr> hasConnected := True \<rparr>))
           else reloadTech e JUndefined JUndefined
                  (trigger ''chromecastConnected'' (w\<lparr> hasConnected := True \<rparr>))))
   \<and> hasConnected (snd (onSessionStateChange e SESSION_RESUMED w))
   \<and> (\<exists>cb. newCalls w (snd (onSessionStateChange e SESSION_RESUMED w)) =
         [Trigger ''chromecastConnected'', Src (currentSources e), Ready cb])
   \<and> (getMediaSession s = Some ms \<and> truthy (media ms) \<and> ms_currentTime ms = JNum 42
        \<and> playerState ms = JStr ''PLAYING'' \<longrightarrow>
      snd (onSessionStateChange e SESSION_RESUMED w) =
        reloadTech e (JNum 42) (JBool True)
          (trigger ''chromecastConnected'' (w\<lparr> hasConnected := True \<rparr>))
      \<and> newCalls w (snd (onSessionStateChange e SESSION_RESUMED w)) =
        [Trigger ''chromecastConnected'', Src (currentSources e),
         Ready (ReloadReady (JBool True) (JNum 42))])"
proof -
  have "onSessionStateChange e SESSION_RESUMED w = onSessionResumed e w"
    by (simp add: onSessionStateChange_def)
  then show ?thesis
    unfolding onSessionResumed_Some [OF assms] newCalls_def
    by (simp add: playerCalls_reloadTech js_or_def split: option.splits)
qed

theorem session_resumed_connects_and_reloads_witness:
  "getCurrentSession resumedEnv = Some \<lparr> getMediaSession = Some playingAt42 \<rparr>
   \<and> getMediaSession \<lparr> getMediaSession = Some playingAt42 \<rparr> = Some playingAt42
   \<and> truthy (media playingAt42) \<and> ms_currentTime playingAt42 = JNum 42
   \<and> playerState playingAt42 = JStr ''PLAYING''
   \<and> hasConnected (snd (onSessionStateChange resumedEnv SESSION_RESUMED initial))
   \<and> playerCalls (snd (onSessionStateChange resumedEnv SESSION_RESUMED initial)) =
       [Trigger ''chromecastConnected'', Src (JObj 6), Ready (ReloadReady (JBool True) (JNum 42))]"
proof -
  have s: "getCurrentSession resumedEnv = Some \<lparr> getMediaSession = Some playingAt42 \<rparr>"
    by (simp add: resumedEnv_def)
  have ms: "getMediaSession \<lparr> getMediaSession = Some playingAt42 \<rparr> = Some playingAt42
     \<and> truthy (media playingAt42) \<and> ms_currentTime playingAt42 = JNum 42
     \<and> playerState playingAt42 = JStr ''PLAYING''"
    by (simp add: playingAt42_def)
  have src: "currentSources resumedEnv = JObj 6"
    by (simp add: resumedEnv_def)
  have nc: "newCalls initial w' = playerCalls w'" for w'
    by (simp add: newCalls_def initial_def)
  from session_resumed_connects_and_reloads [OF s, of initial playingAt42] ms
  have "hasConnected (snd (onSessionStateChange resumedEnv SESSION_RESUMED initial))
     \<and> newCalls initial (snd (onSessionStateChange resumedEnv SESSION_RESUMED initial)) =
        [Trigger ''chromecastConnected'', Src (currentSources resumedEnv),
         Ready (ReloadReady (JBool True) (JNum 42))]"
    by blast
  with s ms src show ?thesis by (simp add: nc)
qed

subsection \<open>Device availability\<close>

text \<open>
  C4. \<open>hasAvailableDevices(state)\<close> is true iff the state is one of \<open>NOT_CONNECTED\<close>,
  \<open>CONNECTING\<close>, \<open>CONNECTED\<close>, and false for every other state; without an argument it
  evaluates the cast context's current cast state. Every availability evaluation, the one of
  a cast-state change and the one of the constructor, triggers exactly one of
  \<open>chromecastDevicesAvailable\<close> (predicate true) and \<open>chromecastDevicesUnavailable\<close> (false).
\<close>

theorem device_availability_events:
  "hasAvailableDevices e (Some st) = (st = NOT_CONNECTED \<or> st = CONNECTING \<or> st = CONNECTED)
   \<and> hasAvailableDevices e None = hasAvailableDevices e (Some (getCastState e))
   \<and> onCastStateChange e st w =
       trigger (if hasAvailableDevices e (Some st) then ''chromecastDevicesAvailable''
                else ''chromecastDevicesUnavailable'') w
   \<and> newCalls w (onCastStateChange e st w) =
       [Trigger (if hasAvailableDevices e (Some st) then ''chromecastDevicesAvailable''
                 else ''chromecastDevicesUnavailable'')]
   \<and> availabilityEvents (newCalls w (snd (new_ChromecastSessionManager e w))) =
       [Trigger (if hasAvailableDevices e (Some (getCastState e)) then ''chromecastDevicesAvailable''
                 else ''chromecastDevicesUnavailable'')]"
proof -
  have a: "hasAvailableDevices e (Some st) = (st = NOT_CONNECTED \<or> st = CONNECTING \<or> st = CONNECTED)"
    by (simp add: hasAvailableDevices_def)
  have b: "hasAvailableDevices e None = hasAvailableDevices e (Some (getCastState e))"
    by (simp add: hasAvailableDevices_def)
  have c: "onCastStateChange e st w =
       trigger (if hasAvailableDevices e (Some st) then ''chromecastDevicesAvailable''
                else ''chromecastDevicesUnavailable'') w"
    by (simp add: onCastStateChange_def notifyPlayerOfDevicesAvailabilityChange_def)
  have d: "newCalls w (onCastStateChange e st w) =
       [Trigger (if hasAvailableDevices e (Some st) then ''chromecastDevicesAvailable''
                 else ''chromecastDevicesUnavailable'')]"
    unfolding c by (simp add: newCalls_def)
  have f: "availabilityEvents (newCalls w (snd (new_ChromecastSessionManager e w))) =
       [Trigger (if hasAvailableDevices e (Some (getCastState e)) then ''chromecastDevicesAvailable''
                 else ''chromecastDevicesUnavailable'')]"
    by (rule availabilityEvents_new)
  from a b c d f show ?thesis by blast
qed

subsection \<open>Opening the cast menu\<close>

text \<open>
  C5. \<open>openCastMenu()\<close>: when the player's \<open>currentSource()\<close> is falsy it returns with the
  state untouched (no session request, no event, no change). Otherwise it requests a session
  and touches nothing else; when that request is fulfilled the connection flag is set,
  \<open>chromecastConnected\<close> is triggered and \<open>_reloadTech\<close> is called with no arguments; when it
  is rejected the no-op handler runs, the state is again the one before the call, and nothing
  reaches the unhandled-rejection channel.
\<close>

theorem open_cast_menu_requests_session:
  "(\<not> truthy (currentSource e) \<longrightarrow> openCastMenu e w = (None, w))
   \<and> (truthy (currentSource e) \<longrightarrow>
        openCastMenu e w = (None, w\<lparr> pendingRequests := Suc (pendingRequests w) \<rparr>)
        \<and> sessionRequestSettled e' Fulfilled (snd (openCastMenu e w)) =
            reloadTech e' JUndefined JUndefined
              (trigger ''chromecastConnected'' (w\<lparr> hasConnected := True \<rparr>))
        \<and> hasConnected (sessionRequestSettled e' Fulfilled (snd (openCastMenu e w)))
        \<and> newCalls w (sessionRequestSettled e' Fulfilled (snd (openCastMenu e w))) =
            [Trigger ''chromecastConnected'', Src (currentSources e'),
             Ready (ReloadReady (js_not (paused e')) (currentTime e'))]
        \<and> sessionRequestSettled e' (Rejected reason) (snd (openCastMenu e w)) = w
        \<and> unhandledRejections (sessionRequestSettled e' (Rejected reason) (snd (openCastMenu e w))) =
            unhandledRejections w)"
proof -
  have a: "\<not> truthy (currentSource e) \<longrightarrow> openCastMenu e w = (None, w)"
    by (simp add: openCastMenu_def)
  have b: "sessionRequestSettled e' Fulfilled (w\<lparr> pendingRequests := Suc (pendingRequests w) \<rparr>) =
      reloadTech e' JUndefined JUndefined
        (trigger ''chromecastConnected'' (w\<lparr> hasConnected := True \<rparr>))"
    by (simp add: sessionRequestSettled_Fulfilled)
  have c: "sessionRequestSettled e' (Rejected reason) (w\<lparr> pendingRequests := Suc (pendingRequests w) \<rparr>) = w"
    by (simp add: sessionRequestSettled_Rejected)
  have d: "newCalls w (reloadTech e' JUndefined JUndefined
        (trigger ''chromecastConnected'' (w\<lparr> hasConnected := True \<rparr>))) =
      [Trigger ''chromecastConnected'', Src (currentSources e'),
       Ready (ReloadReady (js_not (paused e')) (currentTime e'))]"
    by (simp add: newCalls_def playerCalls_reloadTech)
  show ?thesis
    using a by (simp add: openCastMenu_def b c d)
qed

theorem open_cast_menu_requests_session_witness:
  "\<not> truthy (currentSource bareEnv) \<and> openCastMenu bareEnv initial = (None, initial)
   \<and> truthy (currentSource resumedEnv)
   \<and> hasConnected (sessionRequestSettled resumedEnv Fulfilled (snd (openCastMenu resumedEnv initial)))
   \<and> sessionRequestSettled bareEnv (Rejected (JStr ''cancel'')) (snd (openCastMenu resumedEnv initial)) =
       initial"
proof -
  have n: "\<not> truthy (currentSource bareEnv)" by (simp add: bareEnv_def)
  have t: "truthy (currentSource resumedEnv)" by (simp add: resumedEnv_def)
  from open_cast_menu_requests_session [of bareEnv initial] n
  have 1: "openCastMenu bareEnv initial = (None, initial)" by blast
  from open_cast_menu_requests_session [of resumedEnv initial resumedEnv] t
  have 2: "hasConnected (sessionRequestSettled resumedEnv Fulfilled (snd (openCastMenu resumedEnv initial)))"
    by blast
  from open_cast_menu_requests_session [of resumedEnv initial bareEnv "JStr ''cancel''"] t
  have 3: "sessionRequestSettled bareEnv (Rejected (JStr ''cancel'')) (snd (openCastMenu resumedEnv initial)) =
      initial"
    by blast
  from n t 1 2 3 show ?thesis by blast
qed

subsection \<open>The connection query\<close>

text \<open>
  C6. \<open>isChromecastConnected()\<close> returns \<open>true\<close> iff the Cast API is present (the probe
  \<open>isChromecastAPIAvailable()\<close> is truthy, which means the three namespaces are), the cast
  context's state is \<open>CONNECTED\<close> and the connection flag is set. In particular, when the
  state is \<open>CONNECTED\<close> and the flag is not set the result is never \<open>true\<close> nor truthy, and
  it is \<open>false\<close> itself in every environment that has the API.
\<close>

theorem is_connected_needs_local_flag:
  "(isChromecastConnected e w = JBool True) =
     (truthy (isChromecastAPIAvailable e) \<and> getCastState e = CONNECTED \<and> hasConnected w)
   \<and> truthy (isChromecastAPIAvailable e) =
       (truthy (window_chrome e) \<and> truthy (window_chrome_cast e) \<and> truthy (window_cast e))
   \<and> (getCastState e = CONNECTED \<and> \<not> hasConnected w \<longrightarrow>
        isChromecastConnected e w \<noteq> JBool True \<and> \<not> truthy (isChromecastConnected e w))
   \<and> (truthy (isChromecastAPIAvailable e) \<and> getCastState e = CONNECTED \<and> \<not> hasConnected w \<longrightarrow>
        isChromecastConnected e w = JBool False)"
proof -
  have a: "(isChromecastConnected e w = JBool True) =
     (truthy (isChromecastAPIAvailable e) \<and> getCastState e = CONNECTED \<and> hasConnected w)"
    by (cases "isChromecastAPIAvailable e") (auto simp: isChromecastConnected_def js_and_def)
  have b: "truthy (isChromecastConnected e w) =
     (truthy (isChromecastAPIAvailable e) \<and> getCastState e = CONNECTED \<and> hasConnected w)"
    by (simp add: isChromecastConnected_def js_and_def)
  have c: "truthy (isChromecastAPIAvailable e) \<and> getCastState e = CONNECTED \<and> \<not> hasConnected w \<longrightarrow>
        isChromecastConnected e w = JBool False"
    by (simp add: isChromecastConnected_def js_and_def)
  from a b c truthy_isChromecastAPIAvailable [of e] show ?thesis by blast
qed

theorem is_connected_needs_local_flag_witness:
  "getCastState resumedEnv = CONNECTED \<and> \<not> hasConnected initial
   \<and> truthy (isChromecastAPIAvailable resumedEnv)
   \<and> isChromecastConnected resumedEnv initial = JBool False
   \<and> isChromecastConnected resumedEnv connectedWorld = JBool True"
proof -
  have c: "getCastState resumedEnv = CONNECTED" by (simp add: resumedEnv_def)
  have f: "\<not> hasConnected initial" by (simp add: initial_def)
  have a: "truthy (isChromecastAPIAvailable resumedEnv)"
    by (simp add: truthy_isChromecastAPIAvailable) (simp add: resumedEnv_def)
  have g: "hasConnected connectedWorld"
    by (simp add: connectedWorld_def hasConnected_exec handlesSessionResumed_def)
       (simp add: resumedEnv_def)
  from is_connected_needs_local_flag [of resumedEnv initial] c f a
  have 1: "isChromecastConnected resumedEnv initial = JBool False" by blast
  from is_connected_needs_local_flag [of resumedEnv connectedWorld] c g a
  have 2: "isChromecastConnected resumedEnv connectedWorld = JBool True" by blast
  from c f a 1 2 show ?thesis by blast
qed

subsection \<open>The connection flag over time\<close>

text \<open>
  C7. The connection flag is monotone. It starts false. Once true it stays true through every
  operation (construction, \<open>SESSION_ENDED\<close> and every other session-state event, cast-state
  changes, \<open>openCastMenu\<close>, a settled session request, a ready callback, disposal) and hence
  through every run of operations in any environments. An operation that turns it from false
  to true is a successful connect: it ran \<open>_onSessionResumed\<close> (the session listener on
  \<open>SESSION_RESUMED\<close>, or the constructor finding that session state), or it is the fulfilment
  of a session request.
\<close>

theorem connection_flag_monotone:
  "\<not> hasConnected initial
   \<and> (hasConnected w \<longrightarrow> hasConnected (snd (exec e op w)) \<and> hasConnected (run ops w))
   \<and> (\<not> hasConnected w \<and> hasConnected (snd (exec e op w)) \<longrightarrow>
        handlesSessionResumed e op \<or> op = SessionRequestSettled Fulfilled)"
proof -
  have a: "\<not> hasConnected initial" by (simp add: initial_def)
  have b: "hasConnected w \<longrightarrow> hasConnected (snd (exec e op w))"
    by (simp add: hasConnected_exec)
  have c: "hasConnected w \<longrightarrow> hasConnected (run ops w)"
    by (simp add: hasConnected_run)
  have d: "\<not> hasConnected w \<and> hasConnected (snd (exec e op w)) \<longrightarrow>
        handlesSessionResumed e op \<or> op = SessionRequestSettled Fulfilled"
    unfolding hasConnected_exec by blast
  from a b c d show ?thesis by blast
qed

theorem connection_flag_monotone_witness:
  "hasConnected connectedWorld
   \<and> hasConnected (snd (exec bareEnv (SessionStateChanged SESSION_ENDED) connectedWorld))
   \<and> hasConnected (run laterOperations connectedWorld)
   \<and> \<not> hasConnected initial
   \<and> hasConnected (snd (exec resumedEnv (SessionStateChanged SESSION_RESUMED) initial))
   \<and> handlesSessionResumed resumedEnv (SessionStateChanged SESSION_RESUMED)"
proof -
  have g: "hasConnected connectedWorld"
    by (simp add: connectedWorld_def hasConnected_exec handlesSessionResumed_def)
       (simp add: resumedEnv_def)
  then have g': "hasConnected (snd (exec resumedEnv (SessionStateChanged SESSION_RESUMED) initial))"
    by (simp add: connectedWorld_def)
  from connection_flag_monotone [of connectedWorld bareEnv "SessionStateChanged SESSION_ENDED" laterOperations] g
  have 1: "hasConnected (snd (exec bareEnv (SessionStateChanged SESSION_ENDED) connectedWorld))
      \<and> hasConnected (run laterOperations connectedWorld)"
    by blast
  from connection_flag_monotone [of initial resumedEnv "SessionStateChanged SESSION_RESUMED"] g'
  have 2: "\<not> hasConnected initial \<and> handlesSessionResumed resumedEnv (SessionStateChanged SESSION_RESUMED)"
    by blast
  from g g' 1 2 show ?thesis by blast
qed

subsection \<open>Exceptions\<close>

text \<open>
  When an operation throws, all told: where it reads \<^verbatim>\<open>cast.framework\<close> in a page without
  the SDK, and where it runs \<open>_onSessionResumed\<close> while \<open>getCurrentSession()\<close> is \<open>null\<close>. In
  a browser without the Cast API the constructor throws a \<open>ReferenceError\<close> and leaves the
  state as it was.
\<close>

lemma constructor_without_sdk_throws:
  "exec bareEnv New initial = (Some ReferenceError, initial)"
  by (simp add: exec_def castLookupError_def bareEnv_def)

text \<open>
  C8, as the code has it. With the SDK loaded, an operation that runs \<open>_onSessionResumed\<close>
  while \<open>getCurrentSession()\<close> is \<open>null\<close> throws outward: \<open>castSession.getMediaSession()\<close>
  throws a \<open>TypeError\<close> before anything else is done.
\<close>

theorem session_resumed_without_session_throws:
  "fst (exec noSessionEnv (SessionStateChanged SESSION_RESUMED) initial) = Some TypeError"
  by (simp add: fst_exec handlesSessionResumed_def) (simp add: noSessionEnv_def resumedEnv_def)

text \<open>
  C8, amended. Provided the Cast SDK is loaded whenever an operation reads \<^verbatim>\<open>cast.framework\<close>,
  and the cast context has a current session whenever \<open>_onSessionResumed\<close> runs, no operation
  throws outward: each one runs to completion or is a no-op; and the rejection of a session
  request is swallowed in every environment, as nothing ever reaches the unhandled-rejection
  channel.
\<close>

theorem no_operation_throws_given_sdk_and_session:
  assumes "\<not> readsCast e op \<or> truthy (window_cast e)"
    and "\<not> handlesSessionResumed e op \<or> getCurrentSession e \<noteq> None"
  shows "fst (exec e op w) = None
   \<and> unhandledRejections (snd (exec e op w)) = unhandledRejections w
   \<and> exec e' (SessionRequestSettled (Rejected reason)) w =
       (None, if pendingRequests w = 0 then w else w\<lparr> pendingRequests := pendingRequests w - 1 \<rparr>)"
proof -
  from assms have a: "fst (exec e op w) = None"
    by (auto simp: fst_exec)
  have b: "unhandledRejections (snd (exec e op w)) = unhandledRejections w"
    by (rule unhandled_exec)
  have c: "exec e' (SessionRequestSettled (Rejected reason)) w =
       (None, if pendingRequests w = 0 then w else w\<lparr> pendingRequests := pendingRequests w - 1 \<rparr>)"
    by (simp add: exec_def sessionRequestSettled_Rejected)
  from a b c show ?thesis by blast
qed

theorem no_operation_throws_given_sdk_and_session_witness:
  "readsCast resumedEnv New \<and> truthy (window_cast resumedEnv)
   \<and> handlesSessionResumed resumedEnv New
   \<and> getCurrentSession resumedEnv \<noteq> None
   \<and> fst (exec resumedEnv New initial) = None
   \<and> unhandledRejections (snd (exec resumedEnv New initial)) = []"
proof -
  have t: "truthy (window_cast resumedEnv)"
    by (simp add: resumedEnv_def)
  then have h1: "\<not> readsCast resumedEnv New \<or> truthy (window_cast resumedEnv)"
    by simp
  have c: "getCurrentSession resumedEnv \<noteq> None"
    by (simp add: resumedEnv_def)
  then have h2: "\<not> handlesSessionResumed resumedEnv New \<or> getCurrentSession resumedEnv \<noteq> None"
    by simp
  have r: "handlesSessionResumed resumedEnv New"
    by (simp add: handlesSessionResumed_def resumedEnv_def)
  have u: "unhandledRejections initial = []" by (simp add: initial_def)
  from no_operation_throws_given_sdk_and_session [OF h1 h2, of initial] t r c u
  show ?thesis by simp
qed

subsection \<open>What the reload captures\<close>

text \<open>
  C2, at an input where the code departs from it. The session is resumed paused at time 0
  while the local player is playing at 30 seconds: \<open>_reloadTechWithSources\<close> calls
  \<open>_reloadTech(0, false)\<close>, both arguments supplied. Being falsy, both are replaced by the
  player's own state in \<^verbatim>\<open>sessionCurrentTime || player.currentTime()\<close> and
  \<^verbatim>\<open>sessionPlaying || !player.paused()\<close>: the ready callback captures \<open>true\<close> and 30, and
  when it runs it calls \<open>play()\<close> and seeks to 30, where the supplied values ask for
  \<open>pause()\<close> and a seek to 0.
\<close>

theorem reload_tech_replaces_falsy_arguments:
  "snd (onSessionStateChange pausedEnv SESSION_RESUMED initial) =
     reloadTech pausedEnv (JNum 0) (JBool False)
       (trigger ''chromecastConnected'' (initial\<lparr> hasConnected := True \<rparr>))
   \<and> newCalls initial (reloadTech pausedEnv (JNum 0) (JBool False) initial) =
       [Src (JObj 6), Ready (ReloadReady (JBool True) (JNum 30))]
   \<and> newCalls initial (runReady (ReloadReady (JBool True) (JNum 30)) initial) =
       [Play, SetCurrentTime (JNum 30)]"
proof -
  have s: "getCurrentSession pausedEnv = Some \<lparr> getMediaSession = Some pausedAt0 \<rparr>"
    by (simp add: pausedEnv_def)
  have a: "snd (onSessionStateChange pausedEnv SESSION_RESUMED initial) =
     reloadTech pausedEnv (JNum 0) (JBool False)
       (trigger ''chromecastConnected'' (initial\<lparr> hasConnected := True \<rparr>))"
    by (simp add: onSessionStateChange_def onSessionResumed_Some [OF s]) (simp add: pausedAt0_def)
  have b: "newCalls initial (reloadTech pausedEnv (JNum 0) (JBool False) initial) =
       [Src (JObj 6), Ready (ReloadReady (JBool True) (JNum 30))]"
    by (simp add: newCalls_def playerCalls_reloadTech js_or_def js_not_def)
       (simp add: pausedEnv_def resumedEnv_def)
  have c: "newCalls initial (runReady (ReloadReady (JBool True) (JNum 30)) initial) =
       [Play, SetCurrentTime (JNum 30)]"
    by (simp add: newCalls_def js_or_def)
  from a b c show ?thesis by blast
qed

subsection \<open>The capability probe\<close>

text \<open>
  C10, at inputs where the code departs from it. The probe returns the value of
  \<^verbatim>\<open>window.chrome && window.chrome.cast && window.cast\<close>, which is no boolean: \<open>undefined\<close>
  in a browser without \<open>window.chrome\<close>, and the \<open>window.cast\<close> object itself where all
  three namespaces are present.
\<close>

theorem api_probe_returns_operand:
  "isChromecastAPIAvailable bareEnv = JUndefined
   \<and> isChromecastAPIAvailable resumedEnv = JObj 3"
  by (simp add: isChromecastAPIAvailable_def js_and_def bareEnv_def resumedEnv_def)

end
